theory Spec2Isabelle
  imports Main "HOL-Library.Sublist" "HOL-Library.AList"
begin

section \<open>The Ensembl Tark data provider (ensembl\_tark\_data\_provider.py)\<close>

text \<open>
  A shallow embedding of \<^verbatim>\<open>EnsemblTarkDataProvider\<close>. Python's unbounded integers are
  \<open>int\<close>, strings are \<open>string\<close> (accessions, sequences and header values are ASCII),
  every \<^verbatim>\<open>raise\<close> is a value of \<open>error\<close>, and the two things a call can change
  (the dictionary \<^verbatim>\<open>self.transcript_results\<close> and the requests sent to the archive)
  are fields of the provider record that each operation returns updated.
\<close>

subsection \<open>Exceptions\<close>

datatype error =
    HGVSDataNotAvailableError string   \<comment> \<open>\<^verbatim>\<open>hgvs.exceptions.HGVSDataNotAvailableError\<close>, with its message\<close>
  | ValueError string                  \<comment> \<open>built-in, with its message\<close>
  | TypeError                          \<comment> \<open>built-in: \<^verbatim>\<open>None["k"]\<close>, \<^verbatim>\<open>"s" in None\<close>, \<^verbatim>\<open>[..]["k"]\<close>\<close>
  | KeyError string                    \<comment> \<open>built-in: a dictionary without the key\<close>
  | IndexError                         \<comment> \<open>built-in: \<^verbatim>\<open>[][0]\<close>\<close>
  | JSONDecodeError                    \<comment> \<open>raised by \<^verbatim>\<open>response.json()\<close> on a body that is not JSON\<close>
  | RequestException                   \<comment> \<open>raised by \<^verbatim>\<open>requests.get\<close> itself (no response at all)\<close>

subsection \<open>The records of the remote archive\<close>

text \<open>
  The JSON objects the code reads, with the keys it reads. A UTR sequence is a string or
  JSON \<^verbatim>\<open>null\<close> (\<open>None\<close>).
\<close>

record exon =
  loc_start :: int
  loc_end :: int
  exon_order :: int

record gene =
  name :: string

record transcript =
  assembly_name :: string                 \<comment> \<open>\<^verbatim>\<open>transcript["assembly"]["assembly_name"]\<close>\<close>
  loc_strand :: int
  exons :: "exon list"
  three_prime_utr_seq :: "string option"
  five_prime_utr_seq :: "string option"
  genes :: "gene list"

text \<open>
  What \<^verbatim>\<open>response.json()\<close> can return, as far as \<^verbatim>\<open>data["results"]\<close> tells the shapes
  apart: an object without the key, an object whose \<^verbatim>\<open>results\<close> is \<^verbatim>\<open>null\<close> or a list of
  records, and any JSON value that is not an object (a list, a string, a number, \<^verbatim>\<open>null\<close>).
\<close>

datatype results_value = ResultsNull | ResultsList "transcript list"

datatype json_data =
    JsonObject "results_value option"    \<comment> \<open>\<open>None\<close>: the object has no key \<^verbatim>\<open>results\<close>\<close>
  | JsonNotObject

record response =
  ok :: bool
  content_type :: "string option"        \<comment> \<open>\<^verbatim>\<open>response.headers.get('Content-Type')\<close>\<close>
  json :: "error + json_data"            \<comment> \<open>the outcome of \<^verbatim>\<open>response.json()\<close>\<close>

text \<open>The remote archive: what \<^verbatim>\<open>requests.get(url)\<close> does for each URL.\<close>

type_synonym remote = "string \<Rightarrow> error + response"

subsection \<open>The provider object\<close>

record provider =
  assembly_maps :: "(string \<times> (string \<times> string) list) list"
    \<comment> \<open>a dictionary in insertion order: assembly name to (contig accession to name)\<close>
  assembly_by_contig :: "string \<rightharpoonup> string"
  transcript_results :: "string \<rightharpoonup> transcript list"
  fetched :: "string list"
    \<comment> \<open>the URLs passed to \<^verbatim>\<open>requests.get\<close> so far, oldest first\<close>

subsection \<open>Results in the model of hgvs\<close>

record tx_key =
  tx_ac :: string
  alt_ac :: string
  alt_aln_method :: string

record exon_data = tx_key +
  alt_strand :: int
  ord :: int
  tx_start_i :: int
  tx_end_i :: int
  alt_start_i :: int
  alt_end_i :: int
  cigar :: string

record tx_info = tx_key +
  hgnc :: string
  cds_start_i :: "int option"
  cds_end_i :: "int option"

subsection \<open>Python's string operations\<close>

text \<open>\<^verbatim>\<open>str(n)\<close> for an integer: decimal digits, with a minus sign below zero.\<close>

definition digit_char :: "nat \<Rightarrow> char" where
  "digit_char d = ''0123456789'' ! d"

function str_nat :: "nat \<Rightarrow> string" where
  "str_nat n = (if n < 10 then [digit_char n] else str_nat (n div 10) @ [digit_char (n mod 10)])"
  by pat_completeness auto
termination
  by (relation "measure (\<lambda>n. n)") auto

definition str_int :: "int \<Rightarrow> string" where
  "str_int i = (if i < 0 then CHR ''-'' # str_nat (nat (- i)) else str_nat (nat i))"

text \<open>\<^verbatim>\<open>needle in haystack\<close> for two strings.\<close>

fun str_contains :: "string \<Rightarrow> string \<Rightarrow> bool" where
  "str_contains needle [] = (needle = [])"
| "str_contains needle (c # cs) = (prefix needle (c # cs) \<or> str_contains needle cs)"

text \<open>\<^verbatim>\<open>s.split(sep)\<close> for a separator of one character.\<close>

fun str_split :: "char \<Rightarrow> string \<Rightarrow> string list" where
  "str_split sep [] = [[]]"
| "str_split sep (c # cs) =
     (if c = sep then [] # str_split sep cs
      else (case str_split sep cs of
              [] \<Rightarrow> [[c]]
            | p # ps \<Rightarrow> (c # p) # ps))"

text \<open>\<^verbatim>\<open>sep.join(parts)\<close>.\<close>

fun str_join :: "string \<Rightarrow> string list \<Rightarrow> string" where
  "str_join sep [] = []"
| "str_join sep [p] = p"
| "str_join sep (p # q # ps) = p @ sep @ str_join sep (q # ps)"

text \<open>
  \<^verbatim>\<open>int(s)\<close> for an ASCII string: surrounding whitespace is dropped, one sign is allowed,
  then decimal digits, where single underscores may stand between two digits. Anything
  else raises \<^verbatim>\<open>ValueError\<close>.
\<close>

definition is_space :: "char \<Rightarrow> bool" where
  "is_space c = (let n = (of_char c :: nat) in (9 \<le> n \<and> n \<le> 13) \<or> (28 \<le> n \<and> n \<le> 32))"

definition is_digit :: "char \<Rightarrow> bool" where
  "is_digit c = (let n = (of_char c :: nat) in 48 \<le> n \<and> n \<le> 57)"

definition digit_val :: "char \<Rightarrow> nat" where
  "digit_val c = of_char c - 48"

fun parse_digits :: "nat \<Rightarrow> bool \<Rightarrow> string \<Rightarrow> nat option" where
  "parse_digits acc after_digit [] = (if after_digit then Some acc else None)"
| "parse_digits acc after_digit (c # cs) =
     (if is_digit c then parse_digits (10 * acc + digit_val c) True cs
      else if c = CHR ''_'' \<and> after_digit then
        (case cs of
           [] \<Rightarrow> None
         | d # _ \<Rightarrow> if is_digit d then parse_digits acc False cs else None)
      else None)"

definition str_strip :: "string \<Rightarrow> string" where
  "str_strip s = rev (dropWhile is_space (rev (dropWhile is_space s)))"

definition py_int :: "string \<Rightarrow> error + int" where
  "py_int s =
     (let t = str_strip s;
          (neg, ds) = (case t of
                         [] \<Rightarrow> (False, [])
                       | c # cs \<Rightarrow> if c = CHR ''-'' then (True, cs)
                                  else if c = CHR ''+'' then (False, cs)
                                  else (False, t))
      in case parse_digits 0 False ds of
           None \<Rightarrow> Inl (ValueError (''invalid literal for int() with base 10: '' @ s))
         | Some n \<Rightarrow> Inr (if neg then - int n else int n))"

text \<open>An f-string field \<^verbatim>\<open>{v}\<close> for a value that is an integer or \<^verbatim>\<open>None\<close>.\<close>

definition format_opt_int :: "int option \<Rightarrow> string" where
  "format_opt_int v = (case v of None \<Rightarrow> ''None'' | Some i \<Rightarrow> str_int i)"

subsection \<open>Construction\<close>

definition NCBI_ALN_METHOD :: string where
  "NCBI_ALN_METHOD = ''splign''"

definition base_url :: string where
  "base_url = ''https://tark.ensembl.org/api''"

text \<open>
  The loop of \<^verbatim>\<open>__init__\<close> that flattens \<^verbatim>\<open>assembly_maps\<close> into
  \<^verbatim>\<open>assembly_by_contig\<close>: each assembly's contigs are written over what is there.
\<close>

definition build_assembly_by_contig ::
  "(string \<times> (string \<times> string) list) list \<Rightarrow> (string \<rightharpoonup> string)" where
  "build_assembly_by_contig maps =
     foldl (\<lambda>m (assembly_name, contig_map).
              m ++ map_of (map (\<lambda>(contig, _). (contig, assembly_name)) contig_map))
           Map.empty maps"

text \<open>
  \<^verbatim>\<open>__init__\<close>. The function \<^verbatim>\<open>get_ac_name_map\<close> lives in another module: it is the
  parameter \<open>get_ac_name_map\<close>, the table of contig accessions of each assembly.
\<close>

definition init :: "(string \<Rightarrow> (string \<times> string) list) \<Rightarrow> string list option \<Rightarrow> provider" where
  "init get_ac_name_map assemblies =
     (let names = (case assemblies of None \<Rightarrow> [''GRCh37'', ''GRCh38''] | Some l \<Rightarrow> l);
          maps = foldl (\<lambda>d assembly_name. AList.update assembly_name (get_ac_name_map assembly_name) d)
                       [] names
      in \<lparr> assembly_maps = maps,
           assembly_by_contig = build_assembly_by_contig maps,
           transcript_results = Map.empty,
           fetched = [] \<rparr>)"

subsection \<open>The remote record fetcher\<close>

definition get_from_url :: "remote \<Rightarrow> provider \<Rightarrow> string \<Rightarrow> (error + json_data option) \<times> provider" where
  "get_from_url rem self url =
     (let self' = self\<lparr>fetched := fetched self @ [url]\<rparr>
      in case rem url of
           Inl e \<Rightarrow> (Inl e, self')
         | Inr resp \<Rightarrow>
             if ok resp then
               (case content_type resp of
                  None \<Rightarrow> (Inl TypeError, self')
                | Some ct \<Rightarrow>
                    if str_contains ''application/json'' ct then
                      (case json resp of
                         Inl e \<Rightarrow> (Inl e, self')
                       | Inr d \<Rightarrow> (Inr (Some d), self'))
                    else (Inl (ValueError (''Non-json response received for '' @ [CHR 0x27] @ url
                                            @ [CHR 0x27] @ '' - are you behind a firewall?'')), self'))
             else (Inr None, self'))"

subsection \<open>The transcript cache\<close>

definition get_transcript_id_and_version :: "string \<Rightarrow> error + string \<times> int option" where
  "get_transcript_id_and_version transcript_accession =
     (let parts = str_split (CHR ''.'') transcript_accession
      in if length parts = 2 then
           (case py_int (parts ! 1) of
              Inl e \<Rightarrow> Inl e
            | Inr version \<Rightarrow> Inr (parts ! 0, Some version))
         else Inr (transcript_accession, None))"

definition transcript_url :: "string \<Rightarrow> int option \<Rightarrow> string" where
  "transcript_url stable_id version =
     base_url @ ''/transcript/?''
       @ str_join ''&'' [''stable_id='' @ stable_id,
                         ''stable_id_version='' @ format_opt_int version,
                         ''expand_all=true'']"

definition get_transcript_results ::
  "remote \<Rightarrow> provider \<Rightarrow> string \<Rightarrow> (error + transcript list) \<times> provider" where
  "get_transcript_results rem self txac =
     (case transcript_results self txac of
        Some cached \<Rightarrow> (Inr cached, self)
      | None \<Rightarrow>
          (case get_transcript_id_and_version txac of
             Inl e \<Rightarrow> (Inl e, self)
           | Inr (stable_id, version) \<Rightarrow>
               (case get_from_url rem self (transcript_url stable_id version) of
                  (Inl e, self') \<Rightarrow> (Inl e, self')
                | (Inr None, self') \<Rightarrow> (Inl TypeError, self')
                | (Inr (Some JsonNotObject), self') \<Rightarrow> (Inl TypeError, self')
                | (Inr (Some (JsonObject None)), self') \<Rightarrow> (Inl (KeyError ''results''), self')
                | (Inr (Some (JsonObject (Some ResultsNull))), self') \<Rightarrow>
                    (Inl (HGVSDataNotAvailableError
                            (''Data for transcript='' @ [CHR 0x27] @ txac @ [CHR 0x27]
                             @ '' did not contain '' @ [CHR 0x27] @ ''results'' @ [CHR 0x27])), self')
                | (Inr (Some (JsonObject (Some (ResultsList results)))), self') \<Rightarrow>
                    if results \<noteq> [] \<and> length results \<ge> 1 then
                      (Inr results, self'\<lparr>transcript_results := (transcript_results self')(txac \<mapsto> results)\<rparr>)
                    else
                      (Inl (HGVSDataNotAvailableError
                              (''Data for transcript='' @ [CHR 0x27] @ txac @ [CHR 0x27]
                               @ '' did not contain '' @ [CHR 0x27] @ ''results'' @ [CHR 0x27])), self'))))"

subsection \<open>The contig resolver\<close>

text \<open>The \<^verbatim>\<open>for\<close> loop of \<^verbatim>\<open>_get_transcript_for_contig\<close>.\<close>

fun first_for_assembly :: "string \<Rightarrow> transcript list \<Rightarrow> transcript option" where
  "first_for_assembly assembly [] = None"
| "first_for_assembly assembly (t # ts) =
     (if assembly_name t = assembly then Some t else first_for_assembly assembly ts)"

definition unsupported_contig :: "provider \<Rightarrow> string \<Rightarrow> error" where
  "unsupported_contig self altac =
     ValueError (''Contig '' @ [CHR 0x27] @ altac @ [CHR 0x27]
                 @ '' not supported. Supported assemblies: ''
                 @ str_join '', '' (map fst (assembly_maps self)))"

definition get_transcript_for_contig ::
  "provider \<Rightarrow> transcript list \<Rightarrow> string \<Rightarrow> error + transcript option" where
  "get_transcript_for_contig self trs altac =
     (case assembly_by_contig self altac of
        None \<Rightarrow> Inl (unsupported_contig self altac)
      | Some assembly \<Rightarrow> Inr (first_for_assembly assembly trs))"

subsection \<open>The CDS boundary calculator\<close>

text \<open>Python's truth value of a string or \<^verbatim>\<open>None\<close>.\<close>

definition truthy :: "string option \<Rightarrow> bool" where
  "truthy s = (case s of None \<Rightarrow> False | Some v \<Rightarrow> v \<noteq> [])"

definition sequence_length :: "transcript \<Rightarrow> int" where
  "sequence_length t = sum_list (map (\<lambda>ex. loc_end ex - loc_start ex + 1) (exons t))"

definition get_cds_start_end :: "transcript \<Rightarrow> int option \<times> int option" where
  "get_cds_start_end t =
     (if truthy (three_prime_utr_seq t) \<and> truthy (five_prime_utr_seq t) then
        (Some (int (length (the (five_prime_utr_seq t)))),
         Some (sequence_length t - int (length (the (three_prime_utr_seq t)))))
      else (None, None))"

subsection \<open>The exon mapper\<close>

definition check_alt_aln_method :: "string \<Rightarrow> error option" where
  "check_alt_aln_method method =
     (if method \<noteq> NCBI_ALN_METHOD
      then Some (HGVSDataNotAvailableError (''cdot only supports alt_aln_method='' @ NCBI_ALN_METHOD))
      else None)"

text \<open>
  The body of the \<^verbatim>\<open>for\<close> loop of \<^verbatim>\<open>get_tx_exons\<close> for one exon, at the value
  \<open>exon_transcript_pos\<close> of the loop's position variable.
\<close>

definition exon_row :: "string \<Rightarrow> string \<Rightarrow> string \<Rightarrow> int \<Rightarrow> int \<Rightarrow> exon \<Rightarrow> exon_data" where
  "exon_row txac altac method strand exon_transcript_pos ex =
     (let len = loc_end ex - loc_start ex
      in \<lparr> tx_ac = txac, alt_ac = altac, alt_aln_method = method,
           alt_strand = strand,
           ord = exon_order ex,
           tx_start_i = exon_transcript_pos,
           tx_end_i = exon_transcript_pos + len,
           alt_start_i = loc_start ex,
           alt_end_i = loc_end ex,
           cigar = str_int len @ ''='' \<rparr>)"

text \<open>
  The loop itself. The source sets \<^verbatim>\<open>exon_transcript_pos = 0\<close> before the loop and has no
  assignment to it in the body, so every iteration runs at the position it was entered
  with.
\<close>

fun exon_loop :: "string \<Rightarrow> string \<Rightarrow> string \<Rightarrow> int \<Rightarrow> int \<Rightarrow> exon list \<Rightarrow> exon_data list" where
  "exon_loop txac altac method strand exon_transcript_pos [] = []"
| "exon_loop txac altac method strand exon_transcript_pos (ex # rest) =
     exon_row txac altac method strand exon_transcript_pos ex
       # exon_loop txac altac method strand exon_transcript_pos rest"

definition get_tx_exons ::
  "remote \<Rightarrow> provider \<Rightarrow> string \<Rightarrow> string \<Rightarrow> string \<Rightarrow> (error + exon_data list option) \<times> provider" where
  "get_tx_exons rem self txac altac method =
     (case check_alt_aln_method method of
        Some e \<Rightarrow> (Inl e, self)
      | None \<Rightarrow>
          (case get_transcript_results rem self txac of
             (Inl e, self') \<Rightarrow> (Inl e, self')
           | (Inr trs, self') \<Rightarrow>
               if trs = [] then (Inr None, self')
               else
                 (case get_transcript_for_contig self' trs altac of
                    Inl e \<Rightarrow> (Inl e, self')
                  | Inr None \<Rightarrow> (Inl TypeError, self')
                  | Inr (Some t) \<Rightarrow>
                      (Inr (Some (exon_loop txac altac method (loc_strand t) 0 (exons t))), self'))))"

subsection \<open>Transcript info\<close>

definition get_transcript_info :: "transcript option \<Rightarrow> error + string \<times> int option \<times> int option" where
  "get_transcript_info topt =
     (case topt of
        None \<Rightarrow> Inl TypeError
      | Some t \<Rightarrow>
          (case genes t of
             [] \<Rightarrow> Inl IndexError
           | g # _ \<Rightarrow> (let (s, e) = get_cds_start_end t in Inr (name g, s, e))))"

definition get_tx_info ::
  "remote \<Rightarrow> provider \<Rightarrow> string \<Rightarrow> string \<Rightarrow> string \<Rightarrow> (error + tx_info) \<times> provider" where
  "get_tx_info rem self txac altac method =
     (case check_alt_aln_method method of
        Some e \<Rightarrow> (Inl e, self)
      | None \<Rightarrow>
          (case get_transcript_results rem self txac of
             (Inl e, self') \<Rightarrow> (Inl e, self')
           | (Inr trs, self') \<Rightarrow>
               if trs \<noteq> [] then
                 (case get_transcript_for_contig self' trs altac of
                    Inl e \<Rightarrow> (Inl e, self')
                  | Inr topt \<Rightarrow>
                      (case get_transcript_info topt of
                         Inl e \<Rightarrow> (Inl e, self')
                       | Inr (gene_name, s, e) \<Rightarrow>
                           (Inr \<lparr> tx_ac = txac, alt_ac = altac, alt_aln_method = NCBI_ALN_METHOD,
                                  hgnc = gene_name, cds_start_i = s, cds_end_i = e \<rparr>, self')))
               else
                 (Inl (HGVSDataNotAvailableError
                         (''No tx_info for (tx_ac='' @ txac @ '',alt_ac='' @ altac
                          @ '',alt_aln_method='' @ method @ '')'')), self')))"

subsection \<open>The cache invariant\<close>

definition cache_nonempty :: "provider \<Rightarrow> bool" where
  "cache_nonempty self = (\<forall>k rs. transcript_results self k = Some rs \<longrightarrow> rs \<noteq> [])"

subsection \<open>A concrete archive\<close>

text \<open>
  A provider for the two default assemblies and an archive that knows three accessions:
  one annotated on both builds, one on GRCh38 only, and one whose answer is an object
  without \<^verbatim>\<open>results\<close>. Every other URL gets a response that is not \<^verbatim>\<open>ok\<close>.
\<close>

definition example_tx38 :: transcript where
  "example_tx38 = \<lparr> assembly_name = ''GRCh38'', loc_strand = 1,
      exons = [\<lparr>loc_start = 100, loc_end = 199, exon_order = 1\<rparr>,
               \<lparr>loc_start = 300, loc_end = 349, exon_order = 2\<rparr>],
      three_prime_utr_seq = Some ''ACGT'', five_prime_utr_seq = Some ''ACG'',
      genes = [\<lparr>name = ''BRCA2''\<rparr>] \<rparr>"

definition example_tx37 :: transcript where
  "example_tx37 = \<lparr> assembly_name = ''GRCh37'', loc_strand = 1,
      exons = [\<lparr>loc_start = 500, loc_end = 599, exon_order = 1\<rparr>,
               \<lparr>loc_start = 700, loc_end = 749, exon_order = 2\<rparr>],
      three_prime_utr_seq = None, five_prime_utr_seq = Some ''ACG'',
      genes = [\<lparr>name = ''BRCA2''\<rparr>] \<rparr>"

definition example_short_tx :: transcript where
  "example_short_tx = \<lparr> assembly_name = ''GRCh38'', loc_strand = 1,
      exons = [\<lparr>loc_start = 1, loc_end = 5, exon_order = 1\<rparr>],
      three_prime_utr_seq = Some ''ACGTACGTAC'', five_prime_utr_seq = Some ''ACGTACGTAC'',
      genes = [\<lparr>name = ''BRCA2''\<rparr>] \<rparr>"

definition example_ac_name_map :: "string \<Rightarrow> (string \<times> string) list" where
  "example_ac_name_map assembly =
     (if assembly = ''GRCh37'' then [(''CM000663.1'', ''1'')]
      else if assembly = ''GRCh38'' then [(''CM000663.2'', ''1'')]
      else [])"

definition example_provider :: provider where
  "example_provider = init example_ac_name_map None"

definition json_response :: "json_data \<Rightarrow> response" where
  "json_response d = \<lparr> ok = True, content_type = Some ''application/json'', json = Inr d \<rparr>"

definition not_found_response :: response where
  "not_found_response = \<lparr> ok = False, content_type = None, json = Inl JSONDecodeError \<rparr>"

definition example_url :: string where
  "example_url = ''https://tark.ensembl.org/api/transcript/?stable_id=ENST00000380152&stable_id_version=7&expand_all=true''"

definition example_remote :: remote where
  "example_remote url =
     (if url = example_url
      then Inr (json_response (JsonObject (Some (ResultsList [example_tx37, example_tx38]))))
      else if url = ''https://tark.ensembl.org/api/transcript/?stable_id=ENST00000544455&stable_id_version=6&expand_all=true''
      then Inr (json_response (JsonObject (Some (ResultsList [example_tx38]))))
      else if url = ''https://tark.ensembl.org/api/transcript/?stable_id=ENST00000000001&stable_id_version=None&expand_all=true''
      then Inr (json_response (JsonObject None))
      else Inr not_found_response)"

definition example_rows :: "exon_data list" where
  "example_rows =
     [\<lparr>tx_ac = ''ENST00000380152.7'', alt_ac = ''CM000663.2'', alt_aln_method = ''splign'',
       alt_strand = 1, ord = 1, tx_start_i = 0, tx_end_i = 99,
       alt_start_i = 100, alt_end_i = 199, cigar = ''99=''\<rparr>,
      \<lparr>tx_ac = ''ENST00000380152.7'', alt_ac = ''CM000663.2'', alt_aln_method = ''splign'',
       alt_strand = 1, ord = 2, tx_start_i = 0, tx_end_i = 49,
       alt_start_i = 300, alt_end_i = 349, cigar = ''49=''\<rparr>]"

text \<open>Reading a call's outcome: the rows of a successful \<^verbatim>\<open>get_tx_exons\<close>.\<close>

definition rows_of :: "error + exon_data list option \<Rightarrow> exon_data list" where
  "rows_of r = (case r of Inr (Some rows) \<Rightarrow> rows | _ \<Rightarrow> [])"

definition exon_summary :: "exon_data \<Rightarrow> int \<times> int \<times> int \<times> int \<times> string" where
  "exon_summary x = (tx_start_i x, tx_end_i x, alt_start_i x, alt_end_i x, cigar x)"

text \<open>An archive behind a proxy that answers every request with success and no \<^verbatim>\<open>Content-Type\<close>.\<close>

definition headerless_response :: response where
  "headerless_response = \<lparr> ok = True, content_type = None, json = Inr (JsonObject None) \<rparr>"

definition headerless_remote :: remote where
  "headerless_remote url = Inr headerless_response"

section \<open>Evaluation of the concrete archive\<close>

lemma example_id_and_version:
  "get_transcript_id_and_version ''ENST00000380152.7'' = Inr (''ENST00000380152'', Some 7)"
  by (simp add: get_transcript_id_and_version_def py_int_def str_strip_def is_space_def
        is_digit_def digit_val_def)

lemma example_transcript_url: "transcript_url ''ENST00000380152'' (Some 7) = example_url"
  by (simp add: transcript_url_def base_url_def format_opt_int_def str_int_def digit_char_def
        example_url_def)

lemma example_assembly_by_contig:
  "assembly_by_contig example_provider ''CM000663.2'' = Some ''GRCh38''"
  "assembly_by_contig example_provider ''CM000663.1'' = Some ''GRCh37''"
  "assembly_by_contig example_provider ''NC_0'' = None"
  by (simp_all add: example_provider_def init_def Let_def build_assembly_by_contig_def
        example_ac_name_map_def)

lemma example_assembly_maps:
  "map fst (assembly_maps example_provider) = [''GRCh37'', ''GRCh38'']"
  by (simp add: example_provider_def init_def Let_def)

lemma example_provider_empty:
  "transcript_results example_provider = Map.empty" "fetched example_provider = []"
  by (simp_all add: example_provider_def init_def Let_def)

lemma example_remote_url:
  "example_remote example_url
     = Inr (json_response (JsonObject (Some (ResultsList [example_tx37, example_tx38]))))"
  by (simp add: example_remote_def)

lemma example_get_from_url:
  "get_from_url example_remote self example_url
     = (Inr (Some (JsonObject (Some (ResultsList [example_tx37, example_tx38])))),
        self\<lparr>fetched := fetched self @ [example_url]\<rparr>)"
  by (simp add: get_from_url_def example_remote_url json_response_def)

lemma example_transcript_results:
  "get_transcript_results example_remote example_provider ''ENST00000380152.7''
     = (Inr [example_tx37, example_tx38],
        example_provider\<lparr>fetched := [example_url],
          transcript_results := [''ENST00000380152.7'' \<mapsto> [example_tx37, example_tx38]]\<rparr>)"
  by (simp add: get_transcript_results_def example_id_and_version example_transcript_url
        example_get_from_url example_provider_empty)

lemma example_exon_loop:
  "exon_loop ''ENST00000380152.7'' ''CM000663.2'' ''splign'' (loc_strand example_tx38) 0
     (exons example_tx38) = example_rows"
  by (simp add: example_tx38_def example_rows_def exon_row_def str_int_def digit_char_def)

lemma example_assembly_names:
  "assembly_name example_tx37 = ''GRCh37''" "assembly_name example_tx38 = ''GRCh38''"
  by (simp_all add: example_tx37_def example_tx38_def)

lemma example_tx_exons:
  "fst (get_tx_exons example_remote example_provider ''ENST00000380152.7'' ''CM000663.2'' ''splign'')
     = Inr (Some example_rows)"
  by (simp add: get_tx_exons_def check_alt_aln_method_def NCBI_ALN_METHOD_def
        example_transcript_results get_transcript_for_contig_def example_assembly_by_contig
        example_assembly_names example_exon_loop)

lemma example_tx_exons_run:
  "get_tx_exons example_remote example_provider ''ENST00000380152.7'' ''CM000663.2'' ''splign''
     = (Inr (Some example_rows),
        snd (get_tx_exons example_remote example_provider ''ENST00000380152.7'' ''CM000663.2'' ''splign''))"
  using example_tx_exons by (simp add: prod_eq_iff)

section \<open>The exon mapper\<close>

lemma exon_loop_rows:
  "x \<in> set (exon_loop txac altac method strand pos exs) \<Longrightarrow>
   \<exists>ex \<in> set exs. x = exon_row txac altac method strand pos ex"
  by (induction exs) auto

lemma get_tx_exons_rows:
  assumes "get_tx_exons rem self txac altac method = (Inr (Some rows), self')"
  shows "\<exists>t :: transcript. rows = exon_loop txac altac method (loc_strand t) 0 (exons t)"
  using assms
  by (auto simp: get_tx_exons_def split: option.splits sum.splits prod.splits if_splits)

text \<open>
  C4. Every exon alignment that \<^verbatim>\<open>get_tx_exons\<close> returns spans as much of the transcript
  as of the genome (\<open>tx_end_i - tx_start_i = alt_end_i - alt_start_i\<close>), and its cigar is
  the decimal text of that span followed by \<open>=\<close>.
\<close>

theorem get_tx_exons_span_cigar:
  assumes "get_tx_exons rem self txac altac method = (Inr (Some rows), self')"
      and "x \<in> set rows"
  shows "tx_end_i x - tx_start_i x = alt_end_i x - alt_start_i x
       \<and> cigar x = str_int (alt_end_i x - alt_start_i x) @ ''=''"
proof -
  from get_tx_exons_rows[OF assms(1)]
  obtain t :: transcript where "rows = exon_loop txac altac method (loc_strand t) 0 (exons t)" ..
  with assms(2) obtain ex where "x = exon_row txac altac method (loc_strand t) 0 ex"
    using exon_loop_rows by blast
  then show ?thesis by (simp add: exon_row_def Let_def)
qed

theorem get_tx_exons_span_cigar_witness:
  "get_tx_exons example_remote example_provider ''ENST00000380152.7'' ''CM000663.2'' ''splign''
     = (Inr (Some example_rows),
        snd (get_tx_exons example_remote example_provider ''ENST00000380152.7'' ''CM000663.2'' ''splign''))
   \<and> example_rows ! 1 \<in> set example_rows
   \<and> tx_end_i (example_rows ! 1) - tx_start_i (example_rows ! 1)
       = alt_end_i (example_rows ! 1) - alt_start_i (example_rows ! 1)
   \<and> cigar (example_rows ! 1)
       = str_int (alt_end_i (example_rows ! 1) - alt_start_i (example_rows ! 1)) @ ''=''"
proof -
  have mem: "example_rows ! 1 \<in> set example_rows"
    by (simp add: example_rows_def)
  from get_tx_exons_span_cigar[OF example_tx_exons_run mem] example_tx_exons_run mem
  show ?thesis by blast
qed

section \<open>The contig resolver\<close>

lemma first_for_assembly_find:
  "first_for_assembly a trs = List.find (\<lambda>t. assembly_name t = a) trs"
  by (induction trs) auto

text \<open>
  C6. \<^verbatim>\<open>_get_transcript_for_contig\<close>: when the contig is in no configured assembly it
  raises the \<^verbatim>\<open>ValueError\<close> whose message lists the configured assemblies; otherwise it
  returns a value, which is \<^verbatim>\<open>None\<close> exactly when no record of the list has the contig's
  assembly, and is otherwise the record at the least index whose assembly name is the
  contig's assembly.
\<close>

theorem get_transcript_for_contig_spec:
  "(assembly_by_contig self altac = None \<longrightarrow>
      get_transcript_for_contig self trs altac
        = Inl (ValueError (''Contig '' @ [CHR 0x27] @ altac @ [CHR 0x27]
                 @ '' not supported. Supported assemblies: ''
                 @ str_join '', '' (map fst (assembly_maps self)))))
 \<and> (\<forall>a. assembly_by_contig self altac = Some a \<longrightarrow>
      (\<exists>r. get_transcript_for_contig self trs altac = Inr r
         \<and> (r = None \<longleftrightarrow> (\<forall>t \<in> set trs. assembly_name t \<noteq> a))
         \<and> (\<forall>t. r = Some t \<longrightarrow>
               (\<exists>i < length trs. trs ! i = t \<and> assembly_name t = a
                  \<and> (\<forall>j < i. assembly_name (trs ! j) \<noteq> a)))))"
  by (auto simp: get_transcript_for_contig_def unsupported_contig_def first_for_assembly_find
        find_None_iff find_Some_iff)

theorem get_transcript_for_contig_spec_witness:
  "get_transcript_for_contig example_provider [example_tx37, example_tx38] ''NC_0''
     = Inl (ValueError (''Contig '' @ [CHR 0x27] @ ''NC_0'' @ [CHR 0x27]
              @ '' not supported. Supported assemblies: GRCh37, GRCh38''))
   \<and> get_transcript_for_contig example_provider [example_tx37, example_tx38] ''CM000663.2''
       = Inr (Some example_tx38)
   \<and> get_transcript_for_contig example_provider [example_tx37] ''CM000663.2'' = Inr None"
proof -
  have unsupported: "get_transcript_for_contig example_provider [example_tx37, example_tx38] ''NC_0''
     = Inl (ValueError (''Contig '' @ [CHR 0x27] @ ''NC_0'' @ [CHR 0x27]
              @ '' not supported. Supported assemblies: GRCh37, GRCh38''))"
    using get_transcript_for_contig_spec[of example_provider "''NC_0''" "[example_tx37, example_tx38]"]
    by (simp add: example_assembly_by_contig example_assembly_maps)
  from get_transcript_for_contig_spec[of example_provider "''CM000663.2''" "[example_tx37, example_tx38]"]
  obtain r where r: "get_transcript_for_contig example_provider [example_tx37, example_tx38] ''CM000663.2'' = Inr r"
      and none: "r = None \<longleftrightarrow> (\<forall>t \<in> set [example_tx37, example_tx38]. assembly_name t \<noteq> ''GRCh38'')"
      and some: "\<forall>t. r = Some t \<longrightarrow>
               (\<exists>i < length [example_tx37, example_tx38]. [example_tx37, example_tx38] ! i = t
                  \<and> assembly_name t = ''GRCh38'')"
    by (auto simp: example_assembly_by_contig)
  from none have "r \<noteq> None" by (simp add: example_assembly_names)
  then obtain t where t: "r = Some t" by auto
  with some have "\<exists>i < length [example_tx37, example_tx38].
      [example_tx37, example_tx38] ! i = t \<and> assembly_name t = ''GRCh38''"
    by blast
  then have "(t = example_tx37 \<or> t = example_tx38) \<and> assembly_name t = ''GRCh38''"
    by (auto simp: less_Suc_eq)
  then have "t = example_tx38"
    by (auto simp: example_assembly_names)
  with r t have second: "get_transcript_for_contig example_provider [example_tx37, example_tx38] ''CM000663.2''
       = Inr (Some example_tx38)" by simp
  from get_transcript_for_contig_spec[of example_provider "''CM000663.2''" "[example_tx37]"]
  have absent: "get_transcript_for_contig example_provider [example_tx37] ''CM000663.2'' = Inr None"
    by (auto simp: example_assembly_by_contig example_assembly_names)
  from unsupported second absent show ?thesis by blast
qed

section \<open>The alignment-method gate\<close>

text \<open>
  C7. With any alignment method other than \<open>splign\<close>, \<^verbatim>\<open>get_tx_info\<close> and
  \<^verbatim>\<open>get_tx_exons\<close> raise the error of \<^verbatim>\<open>_check_alt_aln_method\<close> and leave the provider
  as it was: no request is sent and the cache is not touched.
\<close>

theorem alt_aln_method_gate:
  assumes "method \<noteq> ''splign''"
  shows "get_tx_info rem self txac altac method
           = (Inl (HGVSDataNotAvailableError ''cdot only supports alt_aln_method=splign''), self)
       \<and> get_tx_exons rem self txac altac method
           = (Inl (HGVSDataNotAvailableError ''cdot only supports alt_aln_method=splign''), self)"
  using assms
  by (simp add: get_tx_info_def get_tx_exons_def check_alt_aln_method_def NCBI_ALN_METHOD_def)

theorem alt_aln_method_gate_witness:
  "''blat'' \<noteq> ''splign''
   \<and> get_tx_info example_remote example_provider ''ENST00000380152.7'' ''CM000663.2'' ''blat''
       = (Inl (HGVSDataNotAvailableError ''cdot only supports alt_aln_method=splign''), example_provider)
   \<and> get_tx_exons example_remote example_provider ''ENST00000380152.7'' ''CM000663.2'' ''blat''
       = (Inl (HGVSDataNotAvailableError ''cdot only supports alt_aln_method=splign''), example_provider)"
proof -
  have neq: "''blat'' \<noteq> ''splign''" by simp
  from alt_aln_method_gate[OF neq] neq show ?thesis by blast
qed

section \<open>The remote record fetcher\<close>

text \<open>
  C9. For a response that is \<^verbatim>\<open>ok\<close>: without a \<^verbatim>\<open>Content-Type\<close> header
  \<^verbatim>\<open>_get_from_url\<close> raises \<^verbatim>\<open>TypeError\<close> (neither data nor the non-JSON
  \<^verbatim>\<open>ValueError\<close>); with the header it returns what \<^verbatim>\<open>response.json()\<close> gives when the
  header contains \<open>application/json\<close>, and raises the non-JSON \<^verbatim>\<open>ValueError\<close> otherwise.
\<close>

theorem get_from_url_content_type:
  assumes "rem url = Inr resp" and "ok resp"
  shows "(content_type resp = None \<longrightarrow>
            fst (get_from_url rem self url) = Inl TypeError)
       \<and> (\<forall>ct. content_type resp = Some ct \<longrightarrow>
            fst (get_from_url rem self url)
              = (if str_contains ''application/json'' ct
                 then map_sum id Some (json resp)
                 else Inl (ValueError (''Non-json response received for '' @ [CHR 0x27] @ url
                                            @ [CHR 0x27] @ '' - are you behind a firewall?''))))"
  using assms by (auto simp: get_from_url_def Let_def split: sum.splits)

theorem get_from_url_content_type_witness:
  "headerless_remote example_url = Inr headerless_response
   \<and> ok headerless_response \<and> content_type headerless_response = None
   \<and> fst (get_from_url headerless_remote example_provider example_url) = Inl TypeError
   \<and> fst (get_from_url example_remote example_provider example_url)
       = Inr (Some (JsonObject (Some (ResultsList [example_tx37, example_tx38]))))"
proof -
  have rem: "headerless_remote example_url = Inr headerless_response"
    by (simp add: headerless_remote_def)
  have okr: "ok headerless_response" and ct: "content_type headerless_response = None"
    by (simp_all add: headerless_response_def)
  from get_from_url_content_type
         [of headerless_remote example_url headerless_response example_provider, OF rem okr] ct
  have a: "fst (get_from_url headerless_remote example_provider example_url) = Inl TypeError"
    by simp
  let ?j = "json_response (JsonObject (Some (ResultsList [example_tx37, example_tx38])))"
  have okj: "ok ?j"
    by (simp add: json_response_def)
  from get_from_url_content_type
         [of example_remote example_url "?j" example_provider, OF example_remote_url okj]
  have b: "fst (get_from_url example_remote example_provider example_url)
       = Inr (Some (JsonObject (Some (ResultsList [example_tx37, example_tx38]))))"
    by (simp add: json_response_def)
  from rem okr ct a b show ?thesis by blast
qed

end
